theory Spec2Isabelle
  imports Main "HOL-Library.AList"
begin

section \<open>Data model of the capabilities controller\<close>

text \<open>
  The TypeScript interfaces of \<^verbatim>\<open>src/index.ts\<close> become records. An optional field
  (\<^verbatim>\<open>granter?: string\<close>) is an \<open>option\<close>, with \<open>None\<close> for \<^verbatim>\<open>undefined\<close>. A plain
  object used as a dictionary becomes an association list in insertion order, which is
  the order of \<^verbatim>\<open>Object.keys\<close> and of \<^verbatim>\<open>for ... in\<close>.

  Renamed fields: \<^verbatim>\<open>type\<close>, \<^verbatim>\<open>value\<close> of a caveat are \<open>caveat_type\<close>, \<open>caveat_value\<close>;
  \<^verbatim>\<open>method\<close>, \<^verbatim>\<open>id\<close> of a permission are \<open>method_name\<close>, \<open>ident\<close>; \<^verbatim>\<open>id\<close>, \<^verbatim>\<open>origin\<close> of the approval metadata are
  \<open>md_id\<close>, \<open>md_origin\<close>; \<^verbatim>\<open>method\<close>, \<^verbatim>\<open>metadata\<close> of a JSON-RPC request are
  \<open>req_method\<close>, \<open>req_metadata\<close>; \<^verbatim>\<open>method\<close> of a registry entry is \<open>handler\<close>.
\<close>

datatype json = JNull | JBool bool | JNum int | JStr string

record caveat =
  caveat_type :: string
  caveat_value :: "json option"

record methodRequest =
  caveats :: "caveat list option"

record permission = methodRequest +
  method_name :: "string option"
  ident :: "string option"
  date :: "nat option"
  granter :: "string option"

record domainEntry =
  permissions :: "permission list option"

type_synonym domainRegistry = "(string \<times> domainEntry) list"

type_synonym requestedPermissions = "(string \<times> methodRequest) list"

record approvalMetadata =
  md_id :: "string option"
  md_origin :: string
  siteTitle :: "string option"

record permissionsRequest =
  origin :: string
  metadata :: approvalMetadata
  options :: requestedPermissions

text \<open>
  The mutable part of the controller: the two fields of \<^verbatim>\<open>this.state\<close> that the code
  reads and writes (either may be \<^verbatim>\<open>undefined\<close>), and the number of calls made so far
  to the two outside sources \<^verbatim>\<open>uuid()\<close> and \<^verbatim>\<open>Date.now()\<close>.
\<close>

record machine =
  domains :: "domainRegistry option"
  permissionsRequests :: "permissionsRequest list option"
  ticks :: nat

text \<open>A JavaScript exception. The only one the code can raise by itself is the
  \<^verbatim>\<open>TypeError\<close> of reading a property of \<^verbatim>\<open>undefined\<close>; the string names the property.\<close>

datatype exn = TypeError string

text \<open>JavaScript truthiness of an optional string: \<^verbatim>\<open>undefined\<close> and \<^verbatim>\<open>''\<close> are falsy.\<close>

fun truthy :: "string option \<Rightarrow> bool" where
  "truthy None = False"
| "truthy (Some s) = (s \<noteq> [])"

section \<open>The permission store\<close>

definition getDomains :: "machine \<Rightarrow> domainRegistry" where
  "getDomains st = (case domains st of None \<Rightarrow> [] | Some ds \<Rightarrow> ds)"

text \<open>
  \<^verbatim>\<open>getPermissionsForDomain\<close> returns the \<^verbatim>\<open>permissions\<close> field of the entry, which may
  itself be \<^verbatim>\<open>undefined\<close> (result \<open>None\<close>), and the empty list for an unknown domain.
\<close>

definition getPermissionsForDomain :: "machine \<Rightarrow> string \<Rightarrow> permission list option" where
  "getPermissionsForDomain st domain =
     (case map_of (getDomains st) domain of
        Some entry \<Rightarrow> permissions entry
      | None \<Rightarrow> Some [])"

text \<open>\<^verbatim>\<open>this.getPermissionsForDomain(d).filter(f)\<close>: a \<^verbatim>\<open>TypeError\<close> when the list is
  \<^verbatim>\<open>undefined\<close>.\<close>

definition filterPermissions ::
  "machine \<Rightarrow> string \<Rightarrow> (permission \<Rightarrow> bool) \<Rightarrow> exn + permission list" where
  "filterPermissions st domain f =
     (case getPermissionsForDomain st domain of
        None \<Rightarrow> Inl (TypeError ''filter'')
      | Some ps \<Rightarrow> Inr (filter f ps))"

definition methodFilter :: "string option \<Rightarrow> permission \<Rightarrow> bool" where
  "methodFilter m p = (method_name p = m)"

subsection \<open>The delegation resolver\<close>

text \<open>
  The \<^verbatim>\<open>while\<close> loop of \<^verbatim>\<open>getPermission\<close>; its only variable is \<^verbatim>\<open>permissions\<close>. The loop
  may run forever (two domains that name each other as granter), so the result is an
  \<open>option\<close> and \<open>None\<close> means that the loop does not return. Inside, \<open>Inl\<close> is an
  exception and \<open>Inr None\<close> the \<^verbatim>\<open>undefined\<close> of the final \<^verbatim>\<open>return\<close>.

  The method parameter is declared \<^verbatim>\<open>string\<close>, but \<^verbatim>\<open>grantPermissionsMiddleware\<close> passes
  \<^verbatim>\<open>reqPerm.method\<close>, which may be \<^verbatim>\<open>undefined\<close>; so it is a \<open>string option\<close> here.
\<close>

partial_function (option) getPermission_loop ::
  "machine \<Rightarrow> string option \<Rightarrow> permission list \<Rightarrow> (exn + permission option) option" where
  "getPermission_loop st m perms =
     (case perms of
        [] \<Rightarrow> Some (Inr None)
      | perm # rest \<Rightarrow>
          (case granter perm of
             None \<Rightarrow> Some (Inr (Some perm))
           | Some g \<Rightarrow>
               if g \<noteq> [] then
                 (case filterPermissions st g (methodFilter m) of
                    Inl e \<Rightarrow> Some (Inl e)
                  | Inr perms' \<Rightarrow> getPermission_loop st m perms')
               else Some (Inr (Some perm))))"

declare getPermission_loop.simps [code]

definition getPermission ::
  "machine \<Rightarrow> string \<Rightarrow> string option \<Rightarrow> (exn + permission option) option" where
  "getPermission st domain m =
     (case filterPermissions st domain (methodFilter m) of
        Inl e \<Rightarrow> Some (Inl e)
      | Inr perms \<Rightarrow> getPermission_loop st m perms)"

text \<open>\<^verbatim>\<open>getPermissionUnTraversed\<close>: no loop, so no outer \<open>option\<close>.\<close>

definition unTraversedFilter :: "string \<Rightarrow> string option \<Rightarrow> string option \<Rightarrow> permission \<Rightarrow> bool" where
  "unTraversedFilter domain m g p =
     (method_name p = m \<and>
       ((granter p = None \<and> g = Some domain) \<or>
        (granter p \<noteq> None \<and> granter p = g)))"

definition getPermissionUnTraversed ::
  "machine \<Rightarrow> string \<Rightarrow> string option \<Rightarrow> string option \<Rightarrow> exn + permission option" where
  "getPermissionUnTraversed st domain m g =
     (case filterPermissions st domain (unTraversedFilter domain m g) of
        Inl e \<Rightarrow> Inl e
      | Inr [] \<Rightarrow> Inr None
      | Inr (p # rest) \<Rightarrow> Inr (Some p))"

subsection \<open>Reading and writing domain entries\<close>

text \<open>
  \<^verbatim>\<open>getDomains\<close> hands out the registry object that \<^verbatim>\<open>this.state\<close> holds
  (\<^verbatim>\<open>const { domains } = this.state; return domains || {}\<close>), not a copy of it. The
  assignment \<^verbatim>\<open>domains[domain] = { permissions: [] }\<close> of \<^verbatim>\<open>getDomainSettings\<close> is therefore
  an assignment into the state's own registry whenever the state has one; only when
  \<^verbatim>\<open>state.domains\<close> is \<^verbatim>\<open>undefined\<close> does the new entry go into a fresh object that is
  dropped on return. \<^verbatim>\<open>setDomain\<close> relies on the same sharing
  (\<^verbatim>\<open>const state = this.state; state.domains = domains\<close>). The model returns the entry
  together with the machine after the call.
\<close>

definition emptyEntry :: domainEntry where
  "emptyEntry = \<lparr>permissions = Some []\<rparr>"

definition getDomainSettings :: "machine \<Rightarrow> string \<Rightarrow> domainEntry \<times> machine" where
  "getDomainSettings st domain =
     (case map_of (getDomains st) domain of
        Some entry \<Rightarrow> (entry, st)
      | None \<Rightarrow>
          (emptyEntry,
           case domains st of
             None \<Rightarrow> st
           | Some ds \<Rightarrow> st\<lparr>domains := Some (AList.update domain emptyEntry ds)\<rparr>))"

definition setDomain :: "machine \<Rightarrow> string \<Rightarrow> domainEntry \<Rightarrow> machine" where
  "setDomain st domain domainSettings =
     st\<lparr>domains := Some (AList.update domain domainSettings (getDomains st))\<rparr>"

section \<open>Requests, responses and the configuration\<close>

text \<open>
  \<^verbatim>\<open>req.params\<close> is declared \<^verbatim>\<open>any[]\<close>. The model keeps the shapes that the handlers read,
  at the declared types of the locals that receive them: \<^verbatim>\<open>[requestedPermissions]\<close> for
  \<^verbatim>\<open>requestPermissions\<close>, \<^verbatim>\<open>[grantee, requestedPerms]\<close> for \<^verbatim>\<open>grantPermissions\<close>,
  \<^verbatim>\<open>[assignedDomain, requestedPerms]\<close> for \<^verbatim>\<open>revokePermissions\<close> (each element a method
  name or a permission-shaped object), and a list of values for every other method.
\<close>

datatype revokeItem = ByName string | ByPermission permission

datatype params =
    Values "json list"
  | RequestParams requestedPermissions
  | GrantParams string "permission list"
  | RevokeParams string "revokeItem list"

record request =
  req_method :: string
  params :: params
  req_metadata :: "approvalMetadata option"

text \<open>What \<^verbatim>\<open>res.error\<close> can hold: a JSON-RPC error object (code, message, data), a caught
  exception, or the reason an approver's promise was rejected with.\<close>

datatype rpcError =
    JsonRpcError int string "request option"
  | Thrown exn
  | Reason json

fun errorCode :: "rpcError \<Rightarrow> int option" where
  "errorCode (JsonRpcError c msg d) = Some c"
| "errorCode (Thrown e) = None"
| "errorCode (Reason r) = None"

definition unauthorized :: "request \<Rightarrow> rpcError" where
  "unauthorized req =
     JsonRpcError 1 ''Unauthorized to perform action. Try requesting permission first using the `requestPermissions` method. More info available at https://github.com/MetaMask/json-rpc-capabilities-middleware'' (Some req)"

definition METHOD_NOT_FOUND :: rpcError where
  "METHOD_NOT_FOUND = JsonRpcError (- 32601) ''Method not found'' None"

definition USER_REJECTED_ERROR :: rpcError where
  "USER_REJECTED_ERROR = JsonRpcError 5 ''User rejected the request.'' None"

datatype rpcResult =
    JsonResult "json option"
  | PermissionsResult "permission list option"

record response =
  result :: "rpcResult option"
  error :: "rpcError option"

text \<open>
  The response object together with a log of what the handler did to it and of the
  callbacks it invoked, in order: an assignment to \<^verbatim>\<open>res.result\<close> or \<^verbatim>\<open>res.error\<close>, a call
  of \<^verbatim>\<open>end\<close> (with its argument), a call of \<^verbatim>\<open>next\<close>, a call of a registered handler.
\<close>

datatype event = SetResult | SetError | End "rpcError option" | Next | Handler string

record ctx =
  res :: response
  trace :: "event list"

definition setResult :: "rpcResult \<Rightarrow> ctx \<Rightarrow> ctx" where
  "setResult v c = c\<lparr>res := (res c)\<lparr>result := Some v\<rparr>, trace := trace c @ [SetResult]\<rparr>"

definition setError :: "rpcError \<Rightarrow> ctx \<Rightarrow> ctx" where
  "setError e c = c\<lparr>res := (res c)\<lparr>error := Some e\<rparr>, trace := trace c @ [SetError]\<rparr>"

definition endCall :: "rpcError option \<Rightarrow> ctx \<Rightarrow> ctx" where
  "endCall e c = c\<lparr>trace := trace c @ [End e]\<rparr>"

definition nextCall :: "ctx \<Rightarrow> ctx" where
  "nextCall c = c\<lparr>trace := trace c @ [Next]\<rparr>"

fun isEnd :: "event \<Rightarrow> bool" where
  "isEnd (End e) = True"
| "isEnd ev = False"

fun isSet :: "event \<Rightarrow> bool" where
  "isSet SetResult = True"
| "isSet SetError = True"
| "isSet ev = False"

text \<open>
  A registry entry: \<open>handler\<close> is \<open>None\<close> when the \<^verbatim>\<open>method\<close> field is not a function.
  A handler is outside the engine; it acts on the response and the callbacks only.
\<close>

record restrictedMethodEntry =
  description :: string
  handler :: "(request \<Rightarrow> ctx \<Rightarrow> ctx) option"

text \<open>How the promise returned by \<^verbatim>\<open>requestUserApproval\<close> settles, if it does.\<close>

datatype approval = Resolved requestedPermissions | Rejected rpcError | Pending

text \<open>
  The constructor's configuration, and the two outside sources: \<open>uuid cfg n\<close> and
  \<open>now cfg n\<close> are what \<^verbatim>\<open>uuid()\<close> and \<^verbatim>\<open>Date.now()\<close> return when they are the call number
  \<open>n\<close> to either of them.
\<close>

record config =
  safeMethods :: "string list"
  restrictedMethods :: "(string \<times> restrictedMethodEntry) list"
  methodPrefix :: string
  requestUserApproval :: "permissionsRequest \<Rightarrow> approval"
  uuid :: "nat \<Rightarrow> string"
  now :: "nat \<Rightarrow> nat"

section \<open>The grant and revoke engine\<close>

text \<open>The inner \<^verbatim>\<open>for\<close> loop of \<^verbatim>\<open>addPermissionsFor\<close>, which sets \<^verbatim>\<open>isReplaced\<close> and breaks.\<close>

fun isReplaced :: "permission list \<Rightarrow> permission \<Rightarrow> bool" where
  "isReplaced [] oldPerm = False"
| "isReplaced (newPerm # rest) oldPerm =
     (if method_name oldPerm = method_name newPerm \<and> granter oldPerm = granter newPerm then True
      else isReplaced rest oldPerm)"

text \<open>The second loop: a permission without a (truthy) \<^verbatim>\<open>id\<close> gets a fresh one and the
  current time. The result is the list pushed and the tick count after the loop.\<close>

fun stampAll :: "config \<Rightarrow> nat \<Rightarrow> permission list \<Rightarrow> permission list \<times> nat" where
  "stampAll cfg t [] = ([], t)"
| "stampAll cfg t (perm # rest) =
     (if \<not> truthy (ident perm) then
        (let perm' = perm\<lparr>ident := Some (uuid cfg t), date := Some (now cfg (Suc t))\<rparr>;
             (ps, t') = stampAll cfg (Suc (Suc t)) rest
         in (perm' # ps, t'))
      else
        (let (ps, t') = stampAll cfg t rest in (perm # ps, t')))"

definition addPermissionsFor ::
  "config \<Rightarrow> machine \<Rightarrow> string \<Rightarrow> permission list \<Rightarrow> (exn + unit) \<times> machine" where
  "addPermissionsFor cfg st domainName newPermissions =
     (let (domain, st1) = getDomainSettings st domainName in
      case permissions domain of
        None \<Rightarrow> (Inl (TypeError ''filter''), st1)
      | Some old \<Rightarrow>
          (let kept = filter (\<lambda>oldPerm. \<not> isReplaced newPermissions oldPerm) old;
               (stamped, t) = stampAll cfg (ticks st1) newPermissions
           in (Inr (),
               setDomain (st1\<lparr>ticks := t\<rparr>) domainName
                 (domain\<lparr>permissions := Some (kept @ stamped)\<rparr>))))"

text \<open>The inner loop of \<^verbatim>\<open>removePermissionsFor\<close>, which clears \<^verbatim>\<open>keep\<close> and breaks, and the
  \<^verbatim>\<open>reduce\<close> around it.\<close>

fun keepPermission :: "permission list \<Rightarrow> permission \<Rightarrow> bool" where
  "keepPermission [] perm = True"
| "keepPermission (r # rest) perm =
     (if method_name r = method_name perm \<and> granter r = granter perm then False
      else keepPermission rest perm)"

definition removePermissionsFor ::
  "machine \<Rightarrow> string \<Rightarrow> permission list \<Rightarrow> (exn + unit) \<times> machine" where
  "removePermissionsFor st domainName permissionsToRemove =
     (let (domain, st1) = getDomainSettings st domainName in
      case permissions domain of
        None \<Rightarrow> (Inl (TypeError ''reduce''), st1)
      | Some ps \<Rightarrow>
          (Inr (),
           setDomain st1 domainName
             (domain\<lparr>permissions :=
                Some (foldl (\<lambda>acc perm. if keepPermission permissionsToRemove perm
                                          then acc @ [perm] else acc) [] ps)\<rparr>)))"

section \<open>The executor and the request router\<close>

text \<open>
  What a handler leaves behind: the exception it threw, if any, the response with its
  log, and (for the handlers that write to the store) the machine. \<^verbatim>\<open>executeMethod\<close> calls
  \<^verbatim>\<open>getPermission\<close>, so it may not return: \<open>None\<close>.
\<close>

definition registeredHandler :: "config \<Rightarrow> string \<Rightarrow> (request \<Rightarrow> ctx \<Rightarrow> ctx) option" where
  "registeredHandler cfg methodName =
     (case map_of (restrictedMethods cfg) methodName of
        Some entry \<Rightarrow> handler entry
      | None \<Rightarrow> None)"

definition invokeHandler :: "(request \<Rightarrow> ctx \<Rightarrow> ctx) \<Rightarrow> request \<Rightarrow> ctx \<Rightarrow> ctx" where
  "invokeHandler h req c = h req (c\<lparr>trace := trace c @ [Handler (req_method req)]\<rparr>)"

definition executeMethod ::
  "config \<Rightarrow> machine \<Rightarrow> string \<Rightarrow> request \<Rightarrow> ctx \<Rightarrow> (exn option \<times> ctx) option" where
  "executeMethod cfg st domain req c =
     (let methodName = req_method req in
      case getPermission st domain (Some methodName) of
        None \<Rightarrow> None
      | Some (Inl e) \<Rightarrow> Some (Some e, c)
      | Some (Inr permission) \<Rightarrow>
          (case registeredHandler cfg methodName of
             Some h \<Rightarrow>
               (case permission of
                  None \<Rightarrow> Some (Some (TypeError ''caveats''), c)
                | Some perm \<Rightarrow>
                    (case caveats perm of
                       Some cs \<Rightarrow>
                         (let statics = filter (\<lambda>c. caveat_type c = ''static'') cs in
                          if length statics > 0 then
                            Some (None,
                                  endCall None
                                    (setResult
                                       (JsonResult (caveat_value (statics ! (length statics - 1))))
                                       c))
                          else Some (None, invokeHandler h req c))
                     | None \<Rightarrow> Some (None, invokeHandler h req c)))
           | None \<Rightarrow>
               Some (None, endCall (Some METHOD_NOT_FOUND) (setError METHOD_NOT_FOUND c))))"

section \<open>The approval coordinator\<close>

definition getPermissionsRequests :: "machine \<Rightarrow> permissionsRequest list" where
  "getPermissionsRequests st = (case permissionsRequests st of None \<Rightarrow> [] | Some reqs \<Rightarrow> reqs)"

definition setPermissionsRequests :: "machine \<Rightarrow> permissionsRequest list \<Rightarrow> machine" where
  "setPermissionsRequests st reqs = st\<lparr>permissionsRequests := Some reqs\<rparr>"

definition removePermissionsRequest :: "machine \<Rightarrow> string option \<Rightarrow> machine" where
  "removePermissionsRequest st requestId =
     setPermissionsRequests st
       (filter (\<lambda>oldReq. md_id (metadata oldReq) \<noteq> requestId) (getPermissionsRequests st))"

text \<open>\<^verbatim>\<open>granter || 'user'\<close>.\<close>

fun orUser :: "string option \<Rightarrow> string" where
  "orUser None = ''user''"
| "orUser (Some g) = (if g = [] then ''user'' else g)"

text \<open>The \<^verbatim>\<open>for ... in\<close> loop of \<^verbatim>\<open>grantNewPermissions\<close>: one record per approved method.\<close>

fun approvedPermissions ::
  "config \<Rightarrow> nat \<Rightarrow> string option \<Rightarrow> requestedPermissions \<Rightarrow> permission list \<times> nat" where
  "approvedPermissions cfg t g [] = ([], t)"
| "approvedPermissions cfg t g ((m, mr) # rest) =
     (let perm = \<lparr>caveats = caveats mr, method_name = Some m, ident = Some (uuid cfg t),
                  date = Some (now cfg (Suc t)), granter = Some (orUser g)\<rparr>;
          (ps, t') = approvedPermissions cfg (Suc (Suc t)) g rest
      in (perm # ps, t'))"

definition grantNewPermissions ::
  "config \<Rightarrow> machine \<Rightarrow> string \<Rightarrow> requestedPermissions \<Rightarrow> ctx \<Rightarrow> string option
     \<Rightarrow> exn option \<times> ctx \<times> machine" where
  "grantNewPermissions cfg st domain approved c g =
     (let (perms, t) = approvedPermissions cfg (ticks st) g approved in
      case addPermissionsFor cfg (st\<lparr>ticks := t\<rparr>) domain perms of
        (Inl e, st') \<Rightarrow> (Some e, c, st')
      | (Inr u, st') \<Rightarrow>
          (None,
           endCall None (setResult (PermissionsResult (getPermissionsForDomain st' domain)) c),
           st'))"

definition getPermissionsMiddleware :: "machine \<Rightarrow> string \<Rightarrow> ctx \<Rightarrow> ctx" where
  "getPermissionsMiddleware st domain c =
     endCall None (setResult (PermissionsResult (getPermissionsForDomain st domain)) c)"

text \<open>
  \<^verbatim>\<open>requestPermissionsMiddleware\<close> has two parts. The first runs when the request comes in
  and registers the pending request. The second is the pair of callbacks given to the
  approver's promise; it runs when (and if) the promise settles, on the machine as it is
  then. An exception raised inside \<^verbatim>\<open>.then\<close> is handed to \<^verbatim>\<open>.catch\<close> like a rejection.
  Params of another shape than \<^verbatim>\<open>[requestedPermissions]\<close> are not part of the typed
  model; the first part raises there.
\<close>

definition requestPermissionsMiddleware ::
  "config \<Rightarrow> machine \<Rightarrow> string \<Rightarrow> request \<Rightarrow> (exn + permissionsRequest) \<times> machine" where
  "requestPermissionsMiddleware cfg st domain req =
     (case params req of
        RequestParams perms \<Rightarrow>
          (let metadata0 = (case req_metadata req of
                              Some md \<Rightarrow> md
                            | None \<Rightarrow> \<lparr>md_id = None, md_origin = domain, siteTitle = Some domain\<rparr>);
               (md, t) = (if \<not> truthy (md_id metadata0)
                          then (metadata0\<lparr>md_id := Some (uuid cfg (ticks st))\<rparr>, Suc (ticks st))
                          else (metadata0, ticks st));
               permissionsRequest = \<lparr>origin = domain, metadata = md, options = perms\<rparr>;
               requests = getPermissionsRequests st @ [permissionsRequest]
           in (Inr permissionsRequest, setPermissionsRequests (st\<lparr>ticks := t\<rparr>) requests))
      | other \<Rightarrow> (Inl (TypeError ''params''), st))"

definition approvalSettled ::
  "config \<Rightarrow> machine \<Rightarrow> string \<Rightarrow> permissionsRequest \<Rightarrow> approval \<Rightarrow> ctx \<Rightarrow> ctx \<times> machine" where
  "approvalSettled cfg st domain permissionsRequest outcome c =
     (case outcome of
        Resolved approved \<Rightarrow>
          if length (map fst approved) = 0 then
            (endCall (Some USER_REJECTED_ERROR) (setError USER_REJECTED_ERROR c), st)
          else
            (let st1 = removePermissionsRequest st (md_id (metadata permissionsRequest)) in
             case grantNewPermissions cfg st1 domain approved c None of
               (None, c', st2) \<Rightarrow> (c', st2)
             | (Some e, c', st2) \<Rightarrow> (endCall (Some (Thrown e)) (setError (Thrown e) c'), st2))
      | Rejected reason \<Rightarrow> (endCall (Some reason) (setError reason c), st)
      | Pending \<Rightarrow> (c, st))"

section \<open>Peer delegation and revocation\<close>

text \<open>
  The duplicate filter of \<^verbatim>\<open>grantPermissionsMiddleware\<close> looks method names up in a plain
  object \<^verbatim>\<open>{}\<close>: a name is taken as seen when \<^verbatim>\<open>methodNames[p.method]\<close> is truthy, which
  it is from the start for the properties every object inherits. An \<^verbatim>\<open>undefined\<close> method
  is the property name \<^verbatim>\<open>"undefined"\<close>.
\<close>

definition objectPrototypeKeys :: "string list" where
  "objectPrototypeKeys =
     [''constructor'', ''__defineGetter__'', ''__defineSetter__'', ''hasOwnProperty'',
      ''__lookupGetter__'', ''__lookupSetter__'', ''isPrototypeOf'', ''propertyIsEnumerable'',
      ''toString'', ''valueOf'', ''__proto__'', ''toLocaleString'']"

fun propertyKey :: "string option \<Rightarrow> string" where
  "propertyKey None = ''undefined''"
| "propertyKey (Some s) = s"

fun dedupe :: "string list \<Rightarrow> permission list \<Rightarrow> permission list" where
  "dedupe methodNames [] = []"
| "dedupe methodNames (p # ps) =
     (if propertyKey (method_name p) \<notin> set methodNames
      then p # dedupe (propertyKey (method_name p) # methodNames) ps
      else dedupe methodNames ps)"

text \<open>
  The \<^verbatim>\<open>forEach\<close> of \<^verbatim>\<open>grantPermissionsMiddleware\<close>. Its variables are \<^verbatim>\<open>newlyGranted\<close>,
  \<^verbatim>\<open>ended\<close>, the response and the tick count. The \<^verbatim>\<open>return\<close> in the failing branch leaves
  the callback, not the \<^verbatim>\<open>forEach\<close>: the next element is visited all the same. An
  exception of \<^verbatim>\<open>getPermission\<close> leaves the loop and the middleware.
\<close>

fun grantEach ::
  "config \<Rightarrow> machine \<Rightarrow> string \<Rightarrow> request \<Rightarrow> permission list
     \<Rightarrow> permission list \<times> bool \<times> ctx \<times> nat
     \<Rightarrow> (exn option \<times> permission list \<times> bool \<times> ctx \<times> nat) option" where
  "grantEach cfg st g req [] (newlyGranted, ended, c, t) = Some (None, newlyGranted, ended, c, t)"
| "grantEach cfg st g req (reqPerm # rest) (newlyGranted, ended, c, t) =
     (let methodName = method_name reqPerm in
      case getPermission st g methodName of
        None \<Rightarrow> None
      | Some (Inl e) \<Rightarrow> Some (Some e, newlyGranted, ended, c, t)
      | Some (Inr (Some perm)) \<Rightarrow>
          (let newPerm0 = \<lparr>caveats = None, method_name = methodName, ident = Some (uuid cfg (Suc t)),
                           date = Some (now cfg t), granter = Some g\<rparr>;
               newPerm = (case caveats perm of
                            Some cs \<Rightarrow> newPerm0\<lparr>caveats := Some cs\<rparr>
                          | None \<Rightarrow> newPerm0)
           in grantEach cfg st g req rest (newlyGranted @ [newPerm], ended, c, Suc (Suc t)))
      | Some (Inr None) \<Rightarrow>
          grantEach cfg st g req rest
            (newlyGranted, True, endCall (Some (unauthorized req)) (setError (unauthorized req) c), t))"

definition grantPermissionsMiddleware ::
  "config \<Rightarrow> machine \<Rightarrow> string \<Rightarrow> request \<Rightarrow> ctx \<Rightarrow> (exn option \<times> ctx \<times> machine) option" where
  "grantPermissionsMiddleware cfg st g req c =
     (case params req of
        GrantParams grantee requestedPerms0 \<Rightarrow>
          (let requestedPerms = dedupe objectPrototypeKeys requestedPerms0 in
           case grantEach cfg st g req requestedPerms ([], False, c, ticks st) of
             None \<Rightarrow> None
           | Some (Some e, newlyGranted, ended, c', t) \<Rightarrow> Some (Some e, c', st\<lparr>ticks := t\<rparr>)
           | Some (None, newlyGranted, ended, c', t) \<Rightarrow>
               if ended then Some (None, c', st\<lparr>ticks := t\<rparr>)
               else
                 (case addPermissionsFor cfg (st\<lparr>ticks := t\<rparr>) grantee newlyGranted of
                    (Inl e, st') \<Rightarrow> Some (Some e, c', st')
                  | (Inr u, st') \<Rightarrow>
                      Some (None,
                            endCall None
                              (setResult (PermissionsResult (Some (fst (stampAll cfg t newlyGranted)))) c'),
                            st')))
      | other \<Rightarrow> Some (Some (TypeError ''params''), c, st))"

text \<open>The \<^verbatim>\<open>forEach\<close> of \<^verbatim>\<open>revokePermissionsMiddleware\<close>, with the same \<^verbatim>\<open>return\<close>.\<close>

fun revokeMethodName :: "revokeItem \<Rightarrow> string option" where
  "revokeMethodName (ByName s) = Some s"
| "revokeMethodName (ByPermission p) = method_name p"

fun revokeEach ::
  "machine \<Rightarrow> string \<Rightarrow> string \<Rightarrow> request \<Rightarrow> revokeItem list
     \<Rightarrow> permission list \<times> bool \<times> ctx
     \<Rightarrow> exn option \<times> permission list \<times> bool \<times> ctx" where
  "revokeEach st domain assignedDomain req [] (newlyRevoked, ended, c) =
     (None, newlyRevoked, ended, c)"
| "revokeEach st domain assignedDomain req (reqPerm # rest) (newlyRevoked, ended, c) =
     (let methodName = revokeMethodName reqPerm in
      case getPermissionUnTraversed st assignedDomain methodName (Some domain) of
        Inl e \<Rightarrow> (Some e, newlyRevoked, ended, c)
      | Inr (Some perm) \<Rightarrow>
          if (truthy (granter perm) \<and> granter perm = Some domain) \<or> assignedDomain = domain
          then revokeEach st domain assignedDomain req rest (newlyRevoked @ [perm], ended, c)
          else revokeEach st domain assignedDomain req rest
                 (newlyRevoked, True,
                  endCall (Some (unauthorized req)) (setError (unauthorized req) c))
      | Inr None \<Rightarrow>
          revokeEach st domain assignedDomain req rest
            (newlyRevoked, True,
             endCall (Some (unauthorized req)) (setError (unauthorized req) c)))"

definition revokePermissionsMiddleware ::
  "machine \<Rightarrow> string \<Rightarrow> request \<Rightarrow> ctx \<Rightarrow> exn option \<times> ctx \<times> machine" where
  "revokePermissionsMiddleware st domain req c =
     (case params req of
        RevokeParams assignedDomain requestedPerms \<Rightarrow>
          (case revokeEach st domain assignedDomain req requestedPerms ([], False, c) of
             (Some e, newlyRevoked, ended, c') \<Rightarrow> (Some e, c', st)
           | (None, newlyRevoked, ended, c') \<Rightarrow>
               if ended then (None, c', st)
               else
                 (case removePermissionsFor st assignedDomain newlyRevoked of
                    (Inl e, st') \<Rightarrow> (Some e, c', st')
                  | (Inr u, st') \<Rightarrow>
                      (None,
                       endCall None (setResult (PermissionsResult (Some newlyRevoked)) c'),
                       st')))
      | other \<Rightarrow> (Some (TypeError ''params''), c, st))"

subsection \<open>The router\<close>

text \<open>
  \<^verbatim>\<open>providerMiddlewareFunction\<close>. For \<^verbatim>\<open>requestPermissions\<close> the model runs the promise's
  callbacks right after the first part, with the outcome the configured approver gives
  for the request: no other request comes in between. The message of a caught exception
  is the JavaScript engine's text; the model keeps the property name.
\<close>

fun exnMessage :: "exn \<Rightarrow> string" where
  "exnMessage (TypeError prop) = ''Cannot read property '' @ prop @ '' of undefined''"

definition providerMiddlewareFunction ::
  "config \<Rightarrow> machine \<Rightarrow> string \<Rightarrow> request \<Rightarrow> ctx \<Rightarrow> (exn option \<times> ctx \<times> machine) option" where
  "providerMiddlewareFunction cfg st domain req c =
     (let methodName = req_method req in
      if methodName \<in> set (safeMethods cfg) then Some (None, nextCall c, st)
      else if methodName = methodPrefix cfg @ ''getPermissions'' then
        Some (None, getPermissionsMiddleware st domain c, st)
      else if methodName = methodPrefix cfg @ ''requestPermissions'' then
        (case requestPermissionsMiddleware cfg st domain req of
           (Inl e, st1) \<Rightarrow> Some (Some e, c, st1)
         | (Inr permissionsRequest, st1) \<Rightarrow>
             (let (c', st2) = approvalSettled cfg st1 domain permissionsRequest
                                (requestUserApproval cfg permissionsRequest) c
              in Some (None, c', st2)))
      else if methodName = methodPrefix cfg @ ''grantPermissions'' then
        grantPermissionsMiddleware cfg st domain req c
      else if methodName = methodPrefix cfg @ ''revokePermissions'' then
        Some (revokePermissionsMiddleware st domain req c)
      else
        (case getPermission st domain (Some methodName) of
           None \<Rightarrow> None
         | Some (Inl err) \<Rightarrow>
             (let e = JsonRpcError 1 (exnMessage err) None in
              Some (None, endCall (Some e) (setError e c), st))
         | Some (Inr None) \<Rightarrow>
             Some (None, endCall (Some (unauthorized req)) (setError (unauthorized req) c), st)
         | Some (Inr (Some permission)) \<Rightarrow>
             (case executeMethod cfg st domain req c of
                None \<Rightarrow> None
              | Some (e, c') \<Rightarrow> Some (e, c', st))))"

section \<open>Notions of the specification\<close>

text \<open>The natural key of a permission record: its \<^verbatim>\<open>(method, granter)\<close> pair.\<close>

definition naturalKey :: "permission \<Rightarrow> string option \<times> string option" where
  "naturalKey p = (method_name p, granter p)"


text \<open>
  The lookup without traversal as the specification words it: the first permission of
  the list with the method and a matching granter, where a granter matches when, for
  \<open>g = d\<close>, it is the sentinel \<^verbatim>\<open>"user"\<close>, and otherwise it is \<open>g\<close>.
\<close>

definition matchingGranter_spec :: "string \<Rightarrow> string \<Rightarrow> permission \<Rightarrow> bool" where
  "matchingGranter_spec d g p =
     (if g = d then granter p = Some ''user'' else granter p = Some g)"

definition getPermissionUnTraversed_spec ::
  "permission list \<Rightarrow> string \<Rightarrow> string \<Rightarrow> string \<Rightarrow> permission option" where
  "getPermissionUnTraversed_spec ps d m g =
     find (\<lambda>p. method_name p = Some m \<and> matchingGranter_spec d g p) ps"

text \<open>A root record, in either of the two forms found in the source: no granter (what
  the two lookups test for) or the granter \<^verbatim>\<open>"user"\<close> (what \<^verbatim>\<open>grantNewPermissions\<close> writes).\<close>

definition isRoot :: "permission \<Rightarrow> bool" where
  "isRoot p = (granter p = None \<or> granter p = Some ''user'')"

section \<open>Example inputs\<close>

definition exampleUuid :: "nat \<Rightarrow> string" where
  "exampleUuid n = CHR ''u'' # replicate n (CHR ''x'')"

text \<open>The handler of scenario S1: it sets \<^verbatim>\<open>res.result = "ok"\<close> and ends.\<close>

definition okHandler :: "request \<Rightarrow> ctx \<Rightarrow> ctx" where
  "okHandler req c = endCall None (setResult (JsonResult (Some (JStr ''ok''))) c)"

definition exampleConfig :: config where
  "exampleConfig =
     \<lparr>safeMethods = [],
      restrictedMethods = [(''write'', \<lparr>description = ''write'', handler = Some okHandler\<rparr>),
                           (''read'', \<lparr>description = ''read'', handler = Some okHandler\<rparr>)],
      methodPrefix = [],
      requestUserApproval = (\<lambda>r. Resolved [(''write'', \<lparr>caveats = None\<rparr>)]),
      uuid = exampleUuid,
      now = (\<lambda>n. 1000 + n)\<rparr>"

text \<open>The state after construction: the default state has \<^verbatim>\<open>permissionsRequests: []\<close> and
  no \<^verbatim>\<open>domains\<close>.\<close>

definition freshMachine :: machine where
  "freshMachine = \<lparr>domains = None, permissionsRequests = Some [], ticks = 0\<rparr>"

definition freshCtx :: ctx where
  "freshCtx = \<lparr>res = \<lparr>result = None, error = None\<rparr>, trace = []\<rparr>"

definition rootWrite :: permission where
  "rootWrite = \<lparr>caveats = None, method_name = Some ''write'', ident = Some ''p1'', date = Some 1,
                 granter = Some ''user''\<rparr>"

definition rootWrite2 :: permission where
  "rootWrite2 = \<lparr>caveats = None, method_name = Some ''write'', ident = Some ''p2'', date = Some 2,
                  granter = Some ''user''\<rparr>"

definition siteAHoldsWrite :: machine where
  "siteAHoldsWrite =
     \<lparr>domains = Some [(''siteA'', \<lparr>permissions = Some [rootWrite]\<rparr>)],
      permissionsRequests = Some [], ticks = 0\<rparr>"


definition grantedBySiteA :: permission where
  "grantedBySiteA = \<lparr>caveats = None, method_name = Some ''write'', ident = Some ''p3'', date = Some 3,
                      granter = Some ''siteA''\<rparr>"

text \<open>\<open>siteA\<close> holds a permission that it granted to itself.\<close>

definition selfGrantedMachine :: machine where
  "selfGrantedMachine =
     \<lparr>domains = Some [(''siteA'', \<lparr>permissions = Some [grantedBySiteA]\<rparr>)],
      permissionsRequests = Some [], ticks = 0\<rparr>"

text \<open>A record without granter, and a store in which \<open>siteB\<close> holds a permission
  delegated by \<open>siteA\<close>, which holds such a record.\<close>

definition ownWrite :: permission where
  "ownWrite = \<lparr>caveats = None, method_name = Some ''write'', ident = Some ''p4'', date = Some 4,
                granter = None\<rparr>"

definition delegatedMachine :: machine where
  "delegatedMachine =
     \<lparr>domains = Some [(''siteA'', \<lparr>permissions = Some [ownWrite]\<rparr>),
                      (''siteB'', \<lparr>permissions = Some [grantedBySiteA]\<rparr>)],
      permissionsRequests = Some [], ticks = 0\<rparr>"

text \<open>Scenario S3: a permission for \<open>read\<close> with two static caveats and one of another
  type between them, held by \<open>siteA\<close> as an own record.\<close>

definition staticRead :: permission where
  "staticRead =
     \<lparr>caveats = Some [\<lparr>caveat_type = ''static'', caveat_value = Some (JNum 41)\<rparr>,
                      \<lparr>caveat_type = ''filter'', caveat_value = Some (JStr ''x'')\<rparr>,
                      \<lparr>caveat_type = ''static'', caveat_value = Some (JNum 42)\<rparr>],
      method_name = Some ''read'', ident = Some ''p5'', date = Some 5, granter = None\<rparr>"

definition staticMachine :: machine where
  "staticMachine =
     \<lparr>domains = Some [(''siteA'', \<lparr>permissions = Some [staticRead]\<rparr>)],
      permissionsRequests = Some [], ticks = 0\<rparr>"

definition readRequest :: request where
  "readRequest = \<lparr>req_method = ''read'', params = Values [], req_metadata = None\<rparr>"

definition writeRequest :: request where
  "writeRequest = \<lparr>req_method = ''write'', params = Values [], req_metadata = None\<rparr>"

text \<open>Scenario S1: \<open>siteA\<close> requests \<open>write\<close>, the approver grants it; the record that
  \<^verbatim>\<open>grantNewPermissions\<close> creates, and the state after the grant.\<close>

definition s1Request :: request where
  "s1Request = \<lparr>req_method = ''requestPermissions'',
                 params = RequestParams [(''write'', \<lparr>caveats = None\<rparr>)],
                 req_metadata = None\<rparr>"

definition s1Granted :: permission where
  "s1Granted = \<lparr>caveats = None, method_name = Some ''write'', ident = Some ''ux'',
                 date = Some 1002, granter = Some ''user''\<rparr>"

definition s1Machine :: machine where
  "s1Machine =
     \<lparr>domains = Some [(''siteA'', \<lparr>permissions = Some [s1Granted]\<rparr>)],
      permissionsRequests = Some [], ticks = 3\<rparr>"

text \<open>Scenario S6: the pending request of \<open>siteA\<close>, and approvers that resolve with the
  empty map or reject.\<close>

definition s1Ticket :: permissionsRequest where
  "s1Ticket =
     \<lparr>origin = ''siteA'',
      metadata = \<lparr>md_id = Some ''u'', md_origin = ''siteA'', siteTitle = Some ''siteA''\<rparr>,
      options = [(''write'', \<lparr>caveats = None\<rparr>)]\<rparr>"

definition pendingMachine :: machine where
  "pendingMachine = \<lparr>domains = None, permissionsRequests = Some [s1Ticket], ticks = 1\<rparr>"

definition rejectingConfig :: config where
  "rejectingConfig = exampleConfig\<lparr>requestUserApproval := (\<lambda>r. Resolved [])\<rparr>"

definition failingConfig :: config where
  "failingConfig = exampleConfig\<lparr>requestUserApproval := (\<lambda>r. Rejected (Reason (JStr ''closed'')))\<rparr>"

text \<open>Two methods that the caller holds no permission for, in a grant and in a revoke.\<close>

definition grantRequest2 :: request where
  "grantRequest2 =
     \<lparr>req_method = ''grantPermissions'',
      params = GrantParams ''siteB''
                 [\<lparr>caveats = None, method_name = Some ''read'', ident = None, date = None, granter = None\<rparr>,
                  \<lparr>caveats = None, method_name = Some ''write'', ident = None, date = None, granter = None\<rparr>],
      req_metadata = None\<rparr>"

definition revokeRequest2 :: request where
  "revokeRequest2 =
     \<lparr>req_method = ''revokePermissions'',
      params = RevokeParams ''siteB'' [ByName ''read'', ByName ''write''],
      req_metadata = None\<rparr>"

section \<open>Properties of the store\<close>

lemma getDomains_setDomain: "getDomains (setDomain st d e) = AList.update d e (getDomains st)"
  by (simp add: getDomains_def setDomain_def)

lemma getPermissionsForDomain_setDomain:
  "getPermissionsForDomain (setDomain st d e) d' =
     (if d' = d then permissions e else getPermissionsForDomain st d')"
  by (simp add: getPermissionsForDomain_def getDomains_setDomain update_conv')

lemma getDomainSettings_entry:
  "permissions (fst (getDomainSettings st d)) = getPermissionsForDomain st d"
  by (simp add: getDomainSettings_def getPermissionsForDomain_def emptyEntry_def split: option.splits)


lemma getDomainSettings_ticks: "ticks (snd (getDomainSettings st d)) = ticks st"
  by (simp add: getDomainSettings_def split: option.splits)

lemma isReplaced_iff: "isReplaced new old \<longleftrightarrow> naturalKey old \<in> naturalKey ` set new"
  by (induction new) (auto simp: naturalKey_def)

lemma keepPermission_iff: "keepPermission rs p \<longleftrightarrow> naturalKey p \<notin> naturalKey ` set rs"
  by (induction rs) (auto simp: naturalKey_def)

lemma naturalKey_stamp: "naturalKey (p\<lparr>ident := i, date := t\<rparr>) = naturalKey p"
  by (simp add: naturalKey_def)

text \<open>Stamping fills in \<^verbatim>\<open>id\<close> and \<^verbatim>\<open>date\<close> only: the natural keys stay.\<close>

lemma stampAll_keys: "map naturalKey (fst (stampAll cfg t ps)) = map naturalKey ps"
proof (induction ps arbitrary: t)
  case Nil
  show ?case by simp
next
  case (Cons a ps)
  have a: "map naturalKey (fst (stampAll cfg (Suc (Suc t)) ps)) = map naturalKey ps"
    by (rule Cons.IH)
  have b: "map naturalKey (fst (stampAll cfg t ps)) = map naturalKey ps"
    by (rule Cons.IH)
  show ?case using a b
    by (cases "stampAll cfg (Suc (Suc t)) ps"; cases "stampAll cfg t ps")
       (simp add: naturalKey_stamp)
qed

lemma foldl_push_filter: "foldl (\<lambda>acc x. if f x then acc @ [x] else acc) acc xs = acc @ filter f xs"
  by (induction xs arbitrary: acc) auto

text \<open>What \<^verbatim>\<open>addPermissionsFor\<close> leaves in the list of the domain: the old records whose key
  no new permission has, then the new permissions, stamped.\<close>

lemma addPermissionsFor_result:
  assumes "getPermissionsForDomain st d = Some old"
  shows "fst (addPermissionsFor cfg st d new) = Inr () \<and>
         getPermissionsForDomain (snd (addPermissionsFor cfg st d new)) d =
           Some (filter (\<lambda>p. naturalKey p \<notin> naturalKey ` set new) old
                 @ fst (stampAll cfg (ticks st) new))"
proof -
  obtain entry st1 where g: "getDomainSettings st d = (entry, st1)"
    by (cases "getDomainSettings st d")
  have p: "permissions entry = Some old"
    using getDomainSettings_entry [of st d] g assms by simp
  have t: "ticks st1 = ticks st" using getDomainSettings_ticks [of st d] g by simp
  show ?thesis
    by (simp add: addPermissionsFor_def g p t isReplaced_iff getPermissionsForDomain_setDomain
          split: prod.splits)
qed

text \<open>An entry without a \<^verbatim>\<open>permissions\<close> list makes \<^verbatim>\<open>addPermissionsFor\<close> throw, with the
  state as it was.\<close>

lemma addPermissionsFor_throws:
  assumes "getPermissionsForDomain st d = None"
  shows "addPermissionsFor cfg st d new = (Inl (TypeError ''filter''), st)"
proof -
  have "getDomainSettings st d = (fst (getDomainSettings st d), st)"
    using assms by (auto simp: getDomainSettings_def getPermissionsForDomain_def split: option.splits)
  moreover have "permissions (fst (getDomainSettings st d)) = None"
    using assms by (simp add: getDomainSettings_entry)
  ultimately show ?thesis
    by (cases "getDomainSettings st d") (simp add: addPermissionsFor_def)
qed

lemma removePermissionsFor_result:
  assumes "getPermissionsForDomain st d = Some ps"
  shows "fst (removePermissionsFor st d rs) = Inr () \<and>
         getPermissionsForDomain (snd (removePermissionsFor st d rs)) d =
           Some (filter (\<lambda>p. naturalKey p \<notin> naturalKey ` set rs) ps)"
proof -
  obtain entry st1 where g: "getDomainSettings st d = (entry, st1)"
    by (cases "getDomainSettings st d")
  have p: "permissions entry = Some ps"
    using getDomainSettings_entry [of st d] g assms by simp
  show ?thesis
    by (simp add: removePermissionsFor_def g p keepPermission_iff foldl_push_filter
          getPermissionsForDomain_setDomain)
qed

subsection \<open>Uniqueness of the natural key\<close>




subsection \<open>Adding, then removing\<close>

text \<open>
  C6, as stated, fails when the list already holds a record with the key of \<open>P\<close>: the
  add drops that record, the remove drops \<open>P\<close>, and the old record does not come back.
\<close>

theorem add_then_remove_counterexample:
  "getPermissionsForDomain siteAHoldsWrite ''siteA'' = Some [rootWrite] \<and>
   getPermissionsForDomain
     (snd (removePermissionsFor
            (snd (addPermissionsFor exampleConfig siteAHoldsWrite ''siteA'' [rootWrite2]))
            ''siteA'' [rootWrite2])) ''siteA''
     = Some []"
  by code_simp

text \<open>
  C6, amended: \<^verbatim>\<open>addPermissionsFor(d, [P])\<close> followed by \<^verbatim>\<open>removePermissionsFor(d, [P])\<close>
  leaves the list of \<open>d\<close> without its records of \<open>P\<close>'s natural key; it restores the
  list when the list held no record with that key.
\<close>

theorem add_then_remove:
  assumes "getPermissionsForDomain st d = Some old"
  shows "fst (addPermissionsFor cfg st d [P]) = Inr () \<and>
         fst (removePermissionsFor (snd (addPermissionsFor cfg st d [P])) d [P]) = Inr () \<and>
         getPermissionsForDomain
           (snd (removePermissionsFor (snd (addPermissionsFor cfg st d [P])) d [P])) d
           = Some (filter (\<lambda>q. naturalKey q \<noteq> naturalKey P) old) \<and>
         (naturalKey P \<notin> naturalKey ` set old \<longrightarrow>
            getPermissionsForDomain
              (snd (removePermissionsFor (snd (addPermissionsFor cfg st d [P])) d [P])) d
              = Some old)"
proof -
  let ?st1 = "snd (addPermissionsFor cfg st d [P])"
  let ?kept = "filter (\<lambda>q. naturalKey q \<noteq> naturalKey P) old"
  have a: "fst (addPermissionsFor cfg st d [P]) = Inr ()"
    and b: "getPermissionsForDomain ?st1 d = Some (?kept @ fst (stampAll cfg (ticks st) [P]))"
    using addPermissionsFor_result [OF assms, of cfg "[P]"] by simp_all
  have k: "map naturalKey (fst (stampAll cfg (ticks st) [P])) = [naturalKey P]"
    using stampAll_keys [of cfg "ticks st" "[P]"] by simp
  have f: "filter (\<lambda>q. naturalKey q \<noteq> naturalKey P) (fst (stampAll cfg (ticks st) [P])) = []"
    using k by (cases "fst (stampAll cfg (ticks st) [P])") auto
  have c: "fst (removePermissionsFor ?st1 d [P]) = Inr ()"
    and e: "getPermissionsForDomain (snd (removePermissionsFor ?st1 d [P])) d = Some ?kept"
    using removePermissionsFor_result [OF b, of "[P]"] f by simp_all
  have g: "naturalKey P \<notin> naturalKey ` set old \<Longrightarrow> ?kept = old"
    by (rule filter_True) (metis imageI)
  show ?thesis using a c e g by simp
qed

text \<open>C6, witness: on a fresh store, where \<open>siteA\<close> holds nothing, adding and removing
  a root permission for \<open>write\<close> leaves the empty list.\<close>

theorem add_then_remove_witness:
  "getPermissionsForDomain freshMachine ''siteA'' = Some [] \<and>
   naturalKey rootWrite \<notin> naturalKey ` set [] \<and>
   getPermissionsForDomain
     (snd (removePermissionsFor
            (snd (addPermissionsFor exampleConfig freshMachine ''siteA'' [rootWrite]))
            ''siteA'' [rootWrite])) ''siteA''
     = Some []"
proof -
  have h: "getPermissionsForDomain freshMachine ''siteA'' = Some []" by code_simp
  show ?thesis using h add_then_remove [OF h, of exampleConfig rootWrite] by simp
qed

subsection \<open>Lazy creation of a domain entry\<close>





subsection \<open>Lookup without traversal\<close>

lemma find_filter_hd: "find P xs = (case filter P xs of [] \<Rightarrow> None | x # r \<Rightarrow> Some x)"
  by (induction xs) auto

text \<open>
  C5, as stated, fails for \<open>g = d\<close>: \<open>siteA\<close> holds a permission for \<open>write\<close> whose
  granter is \<open>siteA\<close> itself. \<^verbatim>\<open>getPermissionUnTraversed("siteA", "write", "siteA")\<close> returns
  it (its granter equals the third argument), where the claim, which for \<open>g = d\<close> accepts
  the granter \<^verbatim>\<open>"user"\<close> only, has no permission to return.
\<close>

theorem getPermissionUnTraversed_counterexample:
  "getPermissionsForDomain selfGrantedMachine ''siteA'' = Some [grantedBySiteA] \<and>
   getPermissionUnTraversed selfGrantedMachine ''siteA'' (Some ''write'') (Some ''siteA'')
     = Inr (Some grantedBySiteA) \<and>
   getPermissionUnTraversed_spec [grantedBySiteA] ''siteA'' ''write'' ''siteA'' = None"
  by code_simp

text \<open>
  C5, amended: \<^verbatim>\<open>getPermissionUnTraversed(d, m, g)\<close> returns the first permission of \<open>d\<close>
  with method \<open>m\<close> whose granter equals \<open>g\<close>, and none if there is none, whenever
  \<open>g \<noteq> d\<close> or \<open>d\<close> holds no root record for \<open>m\<close>. Which root records match for
  \<open>g = d\<close> is left out here.
\<close>

theorem getPermissionUnTraversed_granted:
  assumes "getPermissionsForDomain st d = Some ps"
    and "g \<noteq> d \<or> (\<forall>p \<in> set ps. method_name p = Some m \<longrightarrow> \<not> isRoot p)"
  shows "getPermissionUnTraversed st d (Some m) (Some g)
           = Inr (find (\<lambda>p. method_name p = Some m \<and> granter p = Some g) ps)"
proof -
  have "filter (unTraversedFilter d (Some m) (Some g)) ps
          = filter (\<lambda>p. method_name p = Some m \<and> granter p = Some g) ps"
    using assms(2) by (intro filter_cong) (auto simp: unTraversedFilter_def isRoot_def)
  then show ?thesis
    using assms(1)
    by (simp add: getPermissionUnTraversed_def filterPermissions_def find_filter_hd
          split: list.splits)
qed

text \<open>C5, witness: the self-granted permission of \<open>siteA\<close>, found with \<open>g = d\<close>; and
  the root permission of \<open>siteA\<close>, not found for the other granter \<open>siteB\<close>.\<close>

theorem getPermissionUnTraversed_granted_witness:
  "getPermissionsForDomain selfGrantedMachine ''siteA'' = Some [grantedBySiteA] \<and>
   \<not> isRoot grantedBySiteA \<and>
   getPermissionUnTraversed selfGrantedMachine ''siteA'' (Some ''write'') (Some ''siteA'')
     = Inr (Some grantedBySiteA) \<and>
   getPermissionsForDomain siteAHoldsWrite ''siteA'' = Some [rootWrite] \<and>
   ''siteB'' \<noteq> ''siteA'' \<and>
   getPermissionUnTraversed siteAHoldsWrite ''siteA'' (Some ''write'') (Some ''siteB'') = Inr None"
proof -
  have h1: "getPermissionsForDomain selfGrantedMachine ''siteA'' = Some [grantedBySiteA]"
    by code_simp
  have h2: "''siteA'' \<noteq> ''siteA'' \<or>
            (\<forall>p \<in> set [grantedBySiteA]. method_name p = Some ''write'' \<longrightarrow> \<not> isRoot p)"
    by (simp add: grantedBySiteA_def isRoot_def)
  have h3: "getPermissionsForDomain siteAHoldsWrite ''siteA'' = Some [rootWrite]" by code_simp
  have h4: "''siteB'' \<noteq> ''siteA'' \<or>
            (\<forall>p \<in> set [rootWrite]. method_name p = Some ''write'' \<longrightarrow> \<not> isRoot p)"
    by simp
  show ?thesis
    using h1 h2 h3 getPermissionUnTraversed_granted [OF h1 h2]
      getPermissionUnTraversed_granted [OF h3 h4]
    by (simp add: grantedBySiteA_def rootWrite_def isRoot_def)
qed

section \<open>Properties of the delegation resolver\<close>


lemma getPermission_loop_Cons:
  "getPermission_loop st m (perm # rest) =
     (if truthy (granter perm)
      then getPermission st (case granter perm of Some g \<Rightarrow> g | None \<Rightarrow> []) m
      else Some (Inr (Some perm)))"
  by (subst getPermission_loop.simps)
     (simp add: getPermission_def split: option.splits sum.splits)






section \<open>Properties of the executor\<close>

text \<open>
  C8: when \<^verbatim>\<open>getPermission\<close> resolves a permission for the calling domain, the method is
  registered with a callable handler and the caveats of the permission include one of
  type \<^verbatim>\<open>"static"\<close>, \<^verbatim>\<open>executeMethod\<close> sets \<^verbatim>\<open>res.result\<close> to the value of the last such
  caveat and calls \<^verbatim>\<open>end()\<close>; these are the only two events, so the handler is not
  invoked.
\<close>

theorem executeMethod_static_caveat:
  assumes "getPermission st domain (Some (req_method req)) = Some (Inr (Some P))"
    and "registeredHandler cfg (req_method req) = Some h"
    and "caveats P = Some cs"
    and "filter (\<lambda>cv. caveat_type cv = ''static'') cs \<noteq> []"
  shows "executeMethod cfg st domain req c =
           Some (None,
                 c\<lparr>res := (res c)\<lparr>result :=
                      Some (JsonResult (caveat_value (last (filter (\<lambda>cv. caveat_type cv = ''static'') cs))))\<rparr>,
                   trace := trace c @ [SetResult, End None]\<rparr>)"
  using assms
  by (simp add: executeMethod_def Let_def last_conv_nth setResult_def endCall_def)

text \<open>C8, witness: scenario S3 with the static values 41 and 42; the result is 42.\<close>

theorem executeMethod_static_caveat_witness:
  "getPermission staticMachine ''siteA'' (Some (req_method readRequest)) = Some (Inr (Some staticRead)) \<and>
   registeredHandler exampleConfig (req_method readRequest) = Some okHandler \<and>
   executeMethod exampleConfig staticMachine ''siteA'' readRequest freshCtx =
     Some (None, \<lparr>res = \<lparr>result = Some (JsonResult (Some (JNum 42))), error = None\<rparr>,
                  trace = [SetResult, End None]\<rparr>)"
proof -
  have h1: "getPermission staticMachine ''siteA'' (Some (req_method readRequest))
              = Some (Inr (Some staticRead))" by code_simp
  have h2: "registeredHandler exampleConfig (req_method readRequest) = Some okHandler"
    by (simp add: registeredHandler_def exampleConfig_def readRequest_def)
  have h3: "caveats staticRead =
              Some [\<lparr>caveat_type = ''static'', caveat_value = Some (JNum 41)\<rparr>,
                    \<lparr>caveat_type = ''filter'', caveat_value = Some (JStr ''x'')\<rparr>,
                    \<lparr>caveat_type = ''static'', caveat_value = Some (JNum 42)\<rparr>]"
    by (simp add: staticRead_def)
  have h4: "filter (\<lambda>cv. caveat_type cv = ''static'')
              [\<lparr>caveat_type = ''static'', caveat_value = Some (JNum 41)\<rparr>,
               \<lparr>caveat_type = ''filter'', caveat_value = Some (JStr ''x'')\<rparr>,
               \<lparr>caveat_type = ''static'', caveat_value = Some (JNum 42)\<rparr>] \<noteq> []"
    by simp
  show ?thesis
    using h1 h2 executeMethod_static_caveat [OF h1 h2 h3 h4, of freshCtx]
    by (simp add: freshCtx_def)
qed

text \<open>
  C10: for a method registered with a callable handler, \<^verbatim>\<open>executeMethod\<close> returns normally
  when \<^verbatim>\<open>getPermission\<close> resolves a record, and when \<^verbatim>\<open>getPermission\<close> returns
  \<^verbatim>\<open>undefined\<close> it throws the \<^verbatim>\<open>TypeError\<close> of reading \<^verbatim>\<open>caveats\<close> of \<^verbatim>\<open>undefined\<close>: the
  response is left as it was, no error is set and \<^verbatim>\<open>end\<close> is not called.
\<close>

theorem executeMethod_needs_permission:
  assumes "registeredHandler cfg (req_method req) = Some h"
  shows "(getPermission st domain (Some (req_method req)) = Some (Inr None) \<longrightarrow>
            executeMethod cfg st domain req c = Some (Some (TypeError ''caveats''), c)) \<and>
         (\<forall>P. getPermission st domain (Some (req_method req)) = Some (Inr (Some P)) \<longrightarrow>
            (\<exists>c'. executeMethod cfg st domain req c = Some (None, c')))"
  using assms
  by (auto simp: executeMethod_def Let_def split: option.splits)

text \<open>C10, witness: \<open>siteB\<close> without any permission calls the registered \<open>write\<close> and
  \<^verbatim>\<open>executeMethod\<close> throws; with the delegated permission the handler runs.\<close>

theorem executeMethod_needs_permission_witness:
  "registeredHandler exampleConfig (req_method writeRequest) = Some okHandler \<and>
   getPermission freshMachine ''siteB'' (Some (req_method writeRequest)) = Some (Inr None) \<and>
   executeMethod exampleConfig freshMachine ''siteB'' writeRequest freshCtx
     = Some (Some (TypeError ''caveats''), freshCtx) \<and>
   getPermission delegatedMachine ''siteB'' (Some (req_method writeRequest))
     = Some (Inr (Some ownWrite)) \<and>
   executeMethod exampleConfig delegatedMachine ''siteB'' writeRequest freshCtx
     = Some (None, \<lparr>res = \<lparr>result = Some (JsonResult (Some (JStr ''ok''))), error = None\<rparr>,
                  trace = [Handler ''write'', SetResult, End None]\<rparr>)"
proof -
  have h1: "registeredHandler exampleConfig (req_method writeRequest) = Some okHandler"
    by (simp add: registeredHandler_def exampleConfig_def writeRequest_def)
  have h2: "getPermission freshMachine ''siteB'' (Some (req_method writeRequest)) = Some (Inr None)"
    by code_simp
  have h3: "getPermission delegatedMachine ''siteB'' (Some (req_method writeRequest))
              = Some (Inr (Some ownWrite))" by code_simp
  have a: "executeMethod exampleConfig freshMachine ''siteB'' writeRequest freshCtx
             = Some (Some (TypeError ''caveats''), freshCtx)"
    using executeMethod_needs_permission [OF h1, of freshMachine "''siteB''" freshCtx] h2 by blast
  have e: "\<exists>c'. executeMethod exampleConfig delegatedMachine ''siteB'' writeRequest freshCtx
               = Some (None, c')"
    using executeMethod_needs_permission [OF h1, of delegatedMachine "''siteB''" freshCtx] h3
    by blast
  have b: "executeMethod exampleConfig delegatedMachine ''siteB'' writeRequest freshCtx
     = Some (None, \<lparr>res = \<lparr>result = Some (JsonResult (Some (JStr ''ok''))), error = None\<rparr>,
                  trace = [Handler ''write'', SetResult, End None]\<rparr>)"
    by code_simp
  show ?thesis using h1 h2 h3 a b e by simp
qed

section \<open>Scenarios of the router\<close>

text \<open>A record whose granter is \<^verbatim>\<open>"user"\<close> does not end the walk: the string is truthy,
  so the loop goes on with the permissions of a domain named \<^verbatim>\<open>"user"\<close>.\<close>

lemma user_granter_walks_on:
  "granter perm = Some ''user'' \<Longrightarrow>
     getPermission_loop st m (perm # rest) = getPermission st ''user'' m"
  by (simp add: getPermission_loop_Cons)

text \<open>
  C1 does not hold of the code. Scenario S1: the approved request creates the record
  \<^verbatim>\<open>{method: "write", granter: "user"}\<close> for \<open>siteA\<close> and returns it in \<^verbatim>\<open>res.result\<close>; then
  \<^verbatim>\<open>getPermission("siteA", "write")\<close> returns \<^verbatim>\<open>undefined\<close>, and the call of \<open>write\<close> from
  \<open>siteA\<close> ends with the unauthorized error (code 1) and no result, the handler never
  being reached.
\<close>

theorem granted_root_is_not_resolved:
  "providerMiddlewareFunction exampleConfig freshMachine ''siteA'' s1Request freshCtx
     = Some (None,
             \<lparr>res = \<lparr>result = Some (PermissionsResult (Some [s1Granted])), error = None\<rparr>,
              trace = [SetResult, End None]\<rparr>,
             s1Machine) \<and>
   getPermission s1Machine ''siteA'' (Some ''write'') = Some (Inr None) \<and>
   providerMiddlewareFunction exampleConfig s1Machine ''siteA'' writeRequest freshCtx
     = Some (None,
             \<lparr>res = \<lparr>result = None, error = Some (unauthorized writeRequest)\<rparr>,
              trace = [SetError, End (Some (unauthorized writeRequest))]\<rparr>,
             s1Machine)"
  by code_simp

text \<open>
  C2 does not hold of the code. A grant, and a revoke, that name two methods the caller
  has no permission for: the error is set twice and \<^verbatim>\<open>end\<close> is called twice, once for
  each failing entry.
\<close>

theorem failing_entries_end_each_time:
  "grantPermissionsMiddleware exampleConfig freshMachine ''siteA'' grantRequest2 freshCtx
     = Some (None,
             \<lparr>res = \<lparr>result = None, error = Some (unauthorized grantRequest2)\<rparr>,
              trace = [SetError, End (Some (unauthorized grantRequest2)),
                       SetError, End (Some (unauthorized grantRequest2))]\<rparr>,
             freshMachine) \<and>
   revokePermissionsMiddleware freshMachine ''siteA'' revokeRequest2 freshCtx
     = (None,
        \<lparr>res = \<lparr>result = None, error = Some (unauthorized revokeRequest2)\<rparr>,
         trace = [SetError, End (Some (unauthorized revokeRequest2)),
                  SetError, End (Some (unauthorized revokeRequest2))]\<rparr>,
        freshMachine) \<and>
   length (filter isEnd [SetError, End (Some (unauthorized grantRequest2)),
                         SetError, End (Some (unauthorized grantRequest2))]) = 2"
  by code_simp

text \<open>The two rejecting branches of the approval callbacks leave the machine as it is;
  \<^verbatim>\<open>removePermissionsRequest\<close> is called on the approving branch only.\<close>

lemma approvalSettled_empty:
  "approvalSettled cfg st domain pr (Resolved []) c
     = (endCall (Some USER_REJECTED_ERROR) (setError USER_REJECTED_ERROR c), st)"
  by (simp add: approvalSettled_def)

lemma approvalSettled_rejected:
  "approvalSettled cfg st domain pr (Rejected reason) c
     = (endCall (Some reason) (setError reason c), st)"
  by (simp add: approvalSettled_def)

text \<open>
  C4 does not hold of the code. Scenario S6: when the approver resolves with the empty map
  (error code 5), or rejects, the pending request is still in
  \<^verbatim>\<open>state.permissionsRequests\<close> afterwards; after an approval (scenario S1) it is not.
\<close>

theorem rejected_request_stays_pending:
  "providerMiddlewareFunction rejectingConfig freshMachine ''siteA'' s1Request freshCtx
     = Some (None,
             \<lparr>res = \<lparr>result = None, error = Some USER_REJECTED_ERROR\<rparr>,
              trace = [SetError, End (Some USER_REJECTED_ERROR)]\<rparr>,
             pendingMachine) \<and>
   providerMiddlewareFunction failingConfig freshMachine ''siteA'' s1Request freshCtx
     = Some (None,
             \<lparr>res = \<lparr>result = None, error = Some (Reason (JStr ''closed''))\<rparr>,
              trace = [SetError, End (Some (Reason (JStr ''closed'')))]\<rparr>,
             pendingMachine) \<and>
   getPermissionsRequests pendingMachine = [s1Ticket] \<and>
   getPermissionsRequests s1Machine = []"
  by code_simp

end
